theory Spec2Isabelle
  imports Main "HOL-Library.AList"
begin

section \<open>Exceptions (exceptions.py)\<close>

text \<open>
  Every exception the modelled code can raise is a value.  The Gmail exceptions carry
  their message; \<open>GmailAPIError\<close> also carries \<open>status_code\<close> and \<open>response\<close>.
  \<open>JSONDecodeError\<close> is Python's subclass of \<open>ValueError\<close> raised by
  \<open>response.json()\<close>; \<open>OtherException\<close> stands for any other \<open>Exception\<close>
  the HTTP library may raise.
\<close>

datatype error =
    GmailCredentialsError string
  | GmailTokenError string
  | GmailAPIError string int string
  | GmailRequestError string
  | GmailResourceError string
  | ValueError string
  | JSONDecodeError string
  | AttributeError string
  | TypeError string
  | OtherException string

text \<open>\<open>str(e)\<close>: the message an f-string prints for the exception.\<close>

fun str_error :: "error \<Rightarrow> string" where
  "str_error (GmailCredentialsError m) = m"
| "str_error (GmailTokenError m) = m"
| "str_error (GmailAPIError m _ _) = m"
| "str_error (GmailRequestError m) = m"
| "str_error (GmailResourceError m) = m"
| "str_error (ValueError m) = m"
| "str_error (JSONDecodeError m) = m"
| "str_error (AttributeError m) = m"
| "str_error (TypeError m) = m"
| "str_error (OtherException m) = m"

text \<open>The class tests a caller's \<open>except\<close> clause performs.\<close>

fun is_ValueError :: "error \<Rightarrow> bool" where
  "is_ValueError (ValueError _) = True"
| "is_ValueError (JSONDecodeError _) = True"
| "is_ValueError _ = False"

fun is_ResourceError :: "error \<Rightarrow> bool" where
  "is_ResourceError (GmailResourceError _) = True"
| "is_ResourceError _ = False"

fun is_APIError :: "error \<Rightarrow> bool" where
  "is_APIError (GmailAPIError _ _ _) = True"
| "is_APIError _ = False"

fun is_RequestError :: "error \<Rightarrow> bool" where
  "is_RequestError (GmailRequestError _) = True"
| "is_RequestError _ = False"

section \<open>Python values\<close>

text \<open>Decoded JSON, as \<open>response.json()\<close> returns it; a dict is an association list.\<close>

datatype json =
    JNull
  | JBool bool
  | JNum int
  | JStr string
  | JArr "json list"
  | JObj "(string \<times> json) list"

type_synonym headers = "(string \<times> string) list"

text \<open>Decimal printing of an integer, as \<open>str(int)\<close>.\<close>

definition digit_char :: "nat \<Rightarrow> char" where
  "digit_char d = ''0123456789'' ! d"

function str_nat :: "nat \<Rightarrow> string" where
  "str_nat n = (if n < 10 then [digit_char n] else str_nat (n div 10) @ [digit_char (n mod 10)])"
  by pat_completeness auto
termination
  by (relation "measure id") auto

definition str_int :: "int \<Rightarrow> string" where
  "str_int i = (if i < 0 then CHR ''-'' # str_nat (nat (- i)) else str_nat (nat i))"

text \<open>\<open>dict.update\<close>: an existing key keeps its place, a new key is appended.\<close>

definition dict_update :: "('k \<times> 'v) list \<Rightarrow> ('k \<times> 'v) list \<Rightarrow> ('k \<times> 'v) list" where
  "dict_update d other = fold (\<lambda>(k, v). AList.update k v) other d"

text \<open>Truthiness of a decoded JSON value.\<close>

fun truthy :: "json \<Rightarrow> bool" where
  "truthy JNull = False"
| "truthy (JBool b) = b"
| "truthy (JNum n) = (n \<noteq> 0)"
| "truthy (JStr s) = (s \<noteq> [])"
| "truthy (JArr xs) = (xs \<noteq> [])"
| "truthy (JObj kvs) = (kvs \<noteq> [])"

fun type_name :: "json \<Rightarrow> string" where
  "type_name JNull = ''NoneType''"
| "type_name (JBool _) = ''bool''"
| "type_name (JNum _) = ''int''"
| "type_name (JStr _) = ''str''"
| "type_name (JArr _) = ''list''"
| "type_name (JObj _) = ''dict''"

definition no_attribute_get :: "json \<Rightarrow> error" where
  "no_attribute_get v =
     AttributeError ([CHR 0x27] @ type_name v @ [CHR 0x27] @ '' object has no attribute '' @
                     [CHR 0x27] @ ''get'' @ [CHR 0x27])"

text \<open>\<open>v.get(key, default)\<close> on a decoded value: only a dict has \<open>get\<close>.\<close>

fun py_get :: "json \<Rightarrow> string \<Rightarrow> json \<Rightarrow> error + json" where
  "py_get (JObj kvs) key dflt = Inr (case map_of kvs key of None \<Rightarrow> dflt | Some v \<Rightarrow> v)"
| "py_get v key dflt = Inl (no_attribute_get v)"

section \<open>Configuration (config.py, consts.py)\<close>

record config =
  BASE_URL :: string
  MESSAGES_ENDPOINT :: string
  DRAFTS_ENDPOINT :: string
  THREADS_ENDPOINT :: string
  SEND_ENDPOINT :: string
  TRASH_SUFFIX :: string
  UNTRASH_SUFFIX :: string
  FULL_FORMAT :: string

definition GmailConfig :: config where
  "GmailConfig =
     \<lparr> BASE_URL = ''https://gmail.googleapis.com/gmail/v1/users/me'',
       MESSAGES_ENDPOINT = ''messages'',
       DRAFTS_ENDPOINT = ''drafts'',
       THREADS_ENDPOINT = ''threads'',
       SEND_ENDPOINT = ''messages/send'',
       TRASH_SUFFIX = ''trash'',
       UNTRASH_SUFFIX = ''untrash'',
       FULL_FORMAT = ''full'' \<rparr>"

section \<open>Credentials, requests and the world\<close>

text \<open>
  Modelled from the spec: the credential type of the OAuth library, which is no part of
  this repository.  A credential has an access token, an optional refresh token and an
  expiry; \<open>expired\<close> and \<open>valid\<close> are derived from the expiry and the clock.
\<close>

record credential =
  token :: "string option"
  refresh_token :: "string option"
  expiry :: "int option"

definition expired :: "credential \<Rightarrow> int \<Rightarrow> bool" where
  "expired c t = (case expiry c of None \<Rightarrow> False | Some e \<Rightarrow> e \<le> t)"

definition valid :: "credential \<Rightarrow> int \<Rightarrow> bool" where
  "valid c t = (token c \<noteq> None \<and> \<not> expired c t)"

datatype http_method = GET | POST | PUT | DELETE

text \<open>One call of the httpx client, with the arguments the code passes.\<close>

record http_call =
  call_method :: http_method
  call_url :: string
  call_headers :: headers
  call_params :: "(string \<times> string) list option"
  call_json :: "json option"

text \<open>
  What the awaited call yields: a response (status code, body text, what decoding the
  body as JSON gives, \<open>Inl\<close> being the decoder's error message, and the URL of the
  request), a transport-level failure
  (\<open>httpx.RequestError\<close>, with the URL of the request and its message), or any other
  exception.
\<close>

datatype outcome =
    Response int string "string + json" string
  | RequestFailed string string
  | OtherFailure string

datatype token_file = Absent | Corrupt string | Stored credential

record http_client =
  client_headers :: headers
  client_proxies :: "headers option"

text \<open>The effects the model records, in the order they happen.\<close>

datatype event =
    TokenExists
  | TokenRead
  | TokenWrite
  | CredentialsExists
  | Refresh
  | OAuthFlow
  | HttpSent http_call
  | HttpDone http_call outcome

text \<open>
  The mutable state: the authenticator's cached credential, the HTTP client's lazily
  built httpx client, the token file, the clock, and the trace of effects.
\<close>

record world =
  cached :: "credential option"
  client :: "http_client option"
  token_store :: token_file
  now :: int
  trace :: "event list"

text \<open>
  The collaborators outside the repository: the paths of consts.py, the file system's
  answers, the OAuth library's refresh and consent flow (\<open>Inl\<close> is the message of the
  exception raised), the environment variable \<open>HTTP_PROXY\<close>, and the remote API, whose
  answer to a call may depend on everything that happened before.

  Effects take time: \<open>elapse e\<close> is the number of seconds the clock advances while the
  effect \<open>e\<close> is performed.  \<open>refresh c t\<close> is what refreshing \<open>c\<close> yields when the
  refresh completes at time \<open>t\<close>, and \<open>run_local_server t\<close> what the consent flow yields
  when it completes at time \<open>t\<close>.
\<close>

record env =
  TOKEN_PATH :: string
  CREDENTIALS_PATH :: string
  credentials_file_exists :: bool
  token_writable :: bool
  refresh :: "credential \<Rightarrow> int \<Rightarrow> string + credential"
  run_local_server :: "int \<Rightarrow> string + credential"
  HTTP_PROXY :: "string option"
  transport :: "event list \<Rightarrow> http_call \<Rightarrow> outcome"
  base_url :: string
  cfg :: config
  py_str :: "json \<Rightarrow> string"
  elapse :: "event \<Rightarrow> nat"

text \<open>An effect is appended to the trace, and the clock advances by the time it takes.\<close>

definition log_event :: "env \<Rightarrow> event \<Rightarrow> world \<Rightarrow> world" where
  "log_event en e w = w\<lparr>trace := trace w @ [e], now := now w + int (elapse en e)\<rparr>"

text \<open>The effects performed between an earlier world and a later one.\<close>

definition new_events :: "world \<Rightarrow> world \<Rightarrow> event list" where
  "new_events w w' = drop (length (trace w)) (trace w')"

section \<open>GmailAuthenticator (auth.py)\<close>

text \<open>\<open>_save_token\<close>: a failure to write is logged and swallowed.\<close>

definition save_token :: "env \<Rightarrow> credential \<Rightarrow> world \<Rightarrow> world" where
  "save_token en c w =
     (if token_writable en then log_event en TokenWrite (w\<lparr>token_store := Stored c\<rparr>)
      else log_event en TokenWrite w)"

text \<open>\<open>_get_new_credentials\<close>: the interactive flow, behind the test for the secrets file.\<close>

definition get_new_credentials :: "env \<Rightarrow> world \<Rightarrow> (error + credential) \<times> world" where
  "get_new_credentials en w =
     (let w1 = log_event en CredentialsExists w in
      if \<not> credentials_file_exists en
      then (Inl (GmailCredentialsError (''Credentials file missing: '' @ CREDENTIALS_PATH en)), w1)
      else
        (let w2 = log_event en OAuthFlow w1 in
         case run_local_server en (now w2) of
           Inl m \<Rightarrow> (Inl (GmailCredentialsError (''OAuth flow failed: '' @ m)), w2)
         | Inr c \<Rightarrow> (Inr c, w2)))"

text \<open>Lines 40 to 42 of \<open>get_credentials\<close>: read the token file when it exists.\<close>

definition load_token :: "env \<Rightarrow> world \<Rightarrow> (error + credential option) \<times> world" where
  "load_token en w =
     (let w1 = log_event en TokenExists w in
      case token_store w of
        Absent \<Rightarrow> (Inr None, w1)
      | Corrupt m \<Rightarrow> (Inl (ValueError m), log_event en TokenRead w1)
      | Stored c \<Rightarrow> (Inr (Some c), log_event en TokenRead w1))"

text \<open>Lines 45 to 51: refresh an expired credential that has a refresh token, else authorise.\<close>

definition renew :: "env \<Rightarrow> credential option \<Rightarrow> world \<Rightarrow> (error + credential) \<times> world" where
  "renew en creds w =
     (case creds of
        None \<Rightarrow> get_new_credentials en w
      | Some c \<Rightarrow>
          if expired c (now w) \<and> refresh_token c \<noteq> None \<and> refresh_token c \<noteq> Some []
          then (let w1 = log_event en Refresh w in
                case refresh en c (now w1) of
                  Inl m \<Rightarrow> (Inl (GmailTokenError (''Failed to refresh token: '' @ m)), w1)
                | Inr c' \<Rightarrow> (Inr c', w1))
          else get_new_credentials en w)"

text \<open>Lines 44 to 56: renew, save, cache.\<close>

definition renew_and_save :: "env \<Rightarrow> credential option \<Rightarrow> world \<Rightarrow> (error + credential) \<times> world" where
  "renew_and_save en creds w =
     (case renew en creds w of
        (Inl e, w1) \<Rightarrow> (Inl e, w1)
      | (Inr c, w1) \<Rightarrow> (Inr c, (save_token en c w1)\<lparr>cached := Some c\<rparr>))"

text \<open>Lines 39 to 56: what \<open>get_credentials\<close> does when the cache does not answer.\<close>

definition acquire :: "env \<Rightarrow> world \<Rightarrow> (error + credential) \<times> world" where
  "acquire en w =
     (case load_token en w of
        (Inl e, w1) \<Rightarrow> (Inl e, w1)
      | (Inr None, w1) \<Rightarrow> renew_and_save en None w1
      | (Inr (Some c), w1) \<Rightarrow>
          if valid c (now w1) then (Inr c, w1\<lparr>cached := Some c\<rparr>)
          else renew_and_save en (Some c) w1)"

definition get_credentials :: "env \<Rightarrow> world \<Rightarrow> (error + credential) \<times> world" where
  "get_credentials en w =
     (case cached w of
        None \<Rightarrow> acquire en w
      | Some c \<Rightarrow> if valid c (now w) then (Inr c, w) else acquire en w)"

definition get_auth_headers :: "env \<Rightarrow> world \<Rightarrow> (error + headers) \<times> world" where
  "get_auth_headers en w =
     (case get_credentials en w of
        (Inl e, w1) \<Rightarrow> (Inl e, w1)
      | (Inr c, w1) \<Rightarrow>
          (Inr [(''Authorization'', ''Bearer '' @ (case token c of None \<Rightarrow> ''None'' | Some t \<Rightarrow> t)),
                (''Content-Type'', ''application/json'')], w1))"

section \<open>GmailHTTPClient (client.py)\<close>

definition get_client :: "env \<Rightarrow> bool \<Rightarrow> world \<Rightarrow> (error + http_client) \<times> world" where
  "get_client en proxy w =
     (case client w of
        Some cl \<Rightarrow> (Inr cl, w)
      | None \<Rightarrow>
          (case get_auth_headers en w of
             (Inl e, w1) \<Rightarrow> (Inl e, w1)
           | (Inr h, w1) \<Rightarrow>
               (let cl = \<lparr> client_headers = h,
                           client_proxies =
                             (if proxy
                              then (case HTTP_PROXY en of
                                      None \<Rightarrow> None
                                    | Some u \<Rightarrow>
                                        if u = [] then None
                                        else Some [(''http://'', u), (''https://'', u)])
                              else None) \<rparr>
                in (Inr cl, w1\<lparr>client := Some cl\<rparr>))))"

text \<open>The method strings \<open>request\<close> dispatches on; any other string is unsupported.\<close>

definition method_of :: "string \<Rightarrow> http_method option" where
  "method_of m =
     (if m = ''GET'' then Some GET
      else if m = ''POST'' then Some POST
      else if m = ''PUT'' then Some PUT
      else if m = ''DELETE'' then Some DELETE
      else None)"

text \<open>The arguments each branch passes to httpx.\<close>

fun make_call ::
  "http_method \<Rightarrow> string \<Rightarrow> headers \<Rightarrow> (string \<times> string) list option \<Rightarrow> json option \<Rightarrow> http_call"
where
  "make_call GET url hs params data =
     \<lparr>call_method = GET, call_url = url, call_headers = hs, call_params = params, call_json = None\<rparr>"
| "make_call POST url hs params data =
     \<lparr>call_method = POST, call_url = url, call_headers = hs, call_params = None, call_json = data\<rparr>"
| "make_call PUT url hs params data =
     \<lparr>call_method = PUT, call_url = url, call_headers = hs, call_params = None, call_json = data\<rparr>"
| "make_call DELETE url hs params data =
     \<lparr>call_method = DELETE, call_url = url, call_headers = hs, call_params = None, call_json = None\<rparr>"

definition merge_headers :: "headers \<Rightarrow> headers option \<Rightarrow> headers" where
  "merge_headers auth extra =
     (case extra of
        None \<Rightarrow> auth
      | Some h \<Rightarrow> if h = [] then auth else dict_update auth h)"

text \<open>
  \<open>request\<close> up to its only suspension point, the awaited httpx call: the client, the
  authorisation headers, the URL and the dispatch on the method.  What it returns is the
  call it has issued, or the exception raised before any call.
\<close>

definition request_start ::
  "env \<Rightarrow> string \<Rightarrow> string \<Rightarrow> (string \<times> string) list option \<Rightarrow> json option \<Rightarrow>
   headers option \<Rightarrow> world \<Rightarrow> (error + http_call) \<times> world"
where
  "request_start en method endpoint params data hs w =
     (case get_client en False w of
        (Inl e, w1) \<Rightarrow> (Inl e, w1)
      | (Inr cl, w1) \<Rightarrow>
          (case get_auth_headers en w1 of
             (Inl e, w2) \<Rightarrow> (Inl e, w2)
           | (Inr auth, w2) \<Rightarrow>
               (let request_headers = merge_headers auth hs;
                    url = base_url en @ ''/'' @ endpoint
                in case method_of method of
                     None \<Rightarrow> (Inl (ValueError (''Unsupported HTTP method: '' @ method)), w2)
                   | Some m \<Rightarrow>
                       (let c = make_call m url request_headers params data
                        in (Inr c, log_event en (HttpSent c) w2)))))"

text \<open>The remote end answers the call; the answer may depend on all that came before.\<close>

definition await_call :: "env \<Rightarrow> http_call \<Rightarrow> world \<Rightarrow> outcome \<times> world" where
  "await_call en c w =
     (let out = transport en (trace w) c in (out, log_event en (HttpDone c out) w))"

definition is_success :: "int \<Rightarrow> bool" where
  "is_success st = (200 \<le> st \<and> st \<le> 299)"

text \<open>
  \<open>request\<close> after the call: \<open>raise_for_status\<close>, \<open>response.json()\<close> and the two
  \<open>except\<close> clauses.
\<close>

fun request_finish :: "outcome \<Rightarrow> error + json" where
  "request_finish (Response st body js url) =
     (if is_success st
      then (case js of Inl m \<Rightarrow> Inl (JSONDecodeError m) | Inr j \<Rightarrow> Inr j)
      else Inl (GmailAPIError (''HTTP error for '' @ url @ '' - '' @ str_int st @ '' - '' @ body)
                  st body))"
| "request_finish (RequestFailed url m) =
     Inl (GmailRequestError (''Request error for '' @ url @ '': '' @ m))"
| "request_finish (OtherFailure m) = Inl (OtherException m)"

definition request ::
  "env \<Rightarrow> string \<Rightarrow> string \<Rightarrow> (string \<times> string) list option \<Rightarrow> json option \<Rightarrow>
   headers option \<Rightarrow> world \<Rightarrow> (error + json) \<times> world"
where
  "request en method endpoint params data hs w =
     (case request_start en method endpoint params data hs w of
        (Inl e, w1) \<Rightarrow> (Inl e, w1)
      | (Inr c, w1) \<Rightarrow>
          (case await_call en c w1 of (out, w2) \<Rightarrow> (request_finish out, w2)))"

definition client_get ::
  "env \<Rightarrow> string \<Rightarrow> (string \<times> string) list option \<Rightarrow> headers option \<Rightarrow> world \<Rightarrow>
   (error + json) \<times> world"
where
  "client_get en endpoint params hs w = request en ''GET'' endpoint params None hs w"

definition client_post ::
  "env \<Rightarrow> string \<Rightarrow> json \<Rightarrow> headers option \<Rightarrow> world \<Rightarrow> (error + json) \<times> world"
where
  "client_post en endpoint data hs w = request en ''POST'' endpoint None (Some data) hs w"

definition client_put ::
  "env \<Rightarrow> string \<Rightarrow> json \<Rightarrow> headers option \<Rightarrow> world \<Rightarrow> (error + json) \<times> world"
where
  "client_put en endpoint data hs w = request en ''PUT'' endpoint None (Some data) hs w"

definition client_delete ::
  "env \<Rightarrow> string \<Rightarrow> headers option \<Rightarrow> world \<Rightarrow> (error + unit) \<times> world"
where
  "client_delete en endpoint hs w =
     (case request en ''DELETE'' endpoint None None hs w of
        (Inl e, w1) \<Rightarrow> (Inl e, w1)
      | (Inr _, w1) \<Rightarrow> (Inr (), w1))"

definition close :: "world \<Rightarrow> world" where
  "close w = w\<lparr>client := None\<rparr>"

section \<open>BaseGmailResource (resources/base.py)\<close>

definition get_all ::
  "env \<Rightarrow> string \<Rightarrow> string \<Rightarrow> (string \<times> string) list option \<Rightarrow> headers option \<Rightarrow> world \<Rightarrow>
   (error + json) \<times> world"
where
  "get_all en endpoint list_key params hs w =
     (case client_get en endpoint params hs w of
        (Inl e, w1) \<Rightarrow>
          (Inl (GmailResourceError (''Failed to get '' @ endpoint @ '': '' @ str_error e)), w1)
      | (Inr response, w1) \<Rightarrow>
          (case py_get response list_key (JArr []) of
             Inl e \<Rightarrow>
               (Inl (GmailResourceError (''Failed to get '' @ endpoint @ '': '' @ str_error e)), w1)
           | Inr v \<Rightarrow> (Inr v, w1)))"

definition get_by_id ::
  "env \<Rightarrow> string \<Rightarrow> string \<Rightarrow> (string \<times> string) list option \<Rightarrow> headers option \<Rightarrow> world \<Rightarrow>
   (error + json) \<times> world"
where
  "get_by_id en endpoint resource_id params hs w =
     (case client_get en (endpoint @ ''/'' @ resource_id) params hs w of
        (Inl e, w1) \<Rightarrow>
          (Inl (GmailResourceError
                  (''Failed to get '' @ endpoint @ ''/'' @ resource_id @ '': '' @ str_error e)), w1)
      | (Inr v, w1) \<Rightarrow> (Inr v, w1))"

definition create ::
  "env \<Rightarrow> string \<Rightarrow> json \<Rightarrow> headers option \<Rightarrow> world \<Rightarrow> (error + json) \<times> world"
where
  "create en endpoint data hs w =
     (case client_post en endpoint data hs w of
        (Inl e, w1) \<Rightarrow>
          (Inl (GmailResourceError (''Failed to create '' @ endpoint @ '': '' @ str_error e)), w1)
      | (Inr v, w1) \<Rightarrow> (Inr v, w1))"

definition update ::
  "env \<Rightarrow> string \<Rightarrow> string \<Rightarrow> json \<Rightarrow> headers option \<Rightarrow> world \<Rightarrow> (error + json) \<times> world"
where
  "update en endpoint resource_id data hs w =
     (case client_put en (endpoint @ ''/'' @ resource_id) data hs w of
        (Inl e, w1) \<Rightarrow>
          (Inl (GmailResourceError
                  (''Failed to update '' @ endpoint @ ''/'' @ resource_id @ '': '' @ str_error e)), w1)
      | (Inr v, w1) \<Rightarrow> (Inr v, w1))"

definition delete ::
  "env \<Rightarrow> string \<Rightarrow> string \<Rightarrow> headers option \<Rightarrow> world \<Rightarrow> (error + unit) \<times> world"
where
  "delete en endpoint resource_id hs w =
     (case client_delete en (endpoint @ ''/'' @ resource_id @ ''/'' @ TRASH_SUFFIX (cfg en)) hs w of
        (Inl e, w1) \<Rightarrow>
          (Inl (GmailResourceError
                  (''Failed to delete '' @ endpoint @ ''/'' @ resource_id @ '': '' @ str_error e)), w1)
      | (Inr u, w1) \<Rightarrow> (Inr (), w1))"

definition undelete ::
  "env \<Rightarrow> string \<Rightarrow> string \<Rightarrow> headers option \<Rightarrow> world \<Rightarrow> (error + unit) \<times> world"
where
  "undelete en endpoint resource_id hs w =
     (case client_post en (endpoint @ ''/'' @ resource_id @ ''/'' @ UNTRASH_SUFFIX (cfg en))
             (JObj []) hs w of
        (Inl e, w1) \<Rightarrow>
          (Inl (GmailResourceError
                  (''Failed to undelete '' @ endpoint @ ''/'' @ resource_id @ '': '' @ str_error e)), w1)
      | (Inr v, w1) \<Rightarrow> (Inr (), w1))"

subsection \<open>Fan-out of detail requests\<close>

text \<open>
  A coroutine that awaits one HTTP call is a task: what it does up to the await (it
  returns the call it issued, or the exception it raised before issuing one), and what
  it makes of the answer.
\<close>

record task =
  start :: "world \<Rightarrow> (error + http_call) \<times> world"
  finish :: "outcome \<Rightarrow> error + json"

definition run_task :: "env \<Rightarrow> task \<Rightarrow> world \<Rightarrow> (error + json) \<times> world" where
  "run_task en t w =
     (case start t w of
        (Inl e, w1) \<Rightarrow> (Inl e, w1)
      | (Inr c, w1) \<Rightarrow> (case await_call en c w1 of (out, w2) \<Rightarrow> (finish t out, w2)))"

text \<open>\<open>get_by_id\<close> as a task: the same \<open>try\<close> block, cut at the await.\<close>

definition get_by_id_task ::
  "env \<Rightarrow> string \<Rightarrow> string \<Rightarrow> (string \<times> string) list option \<Rightarrow> headers option \<Rightarrow> task"
where
  "get_by_id_task en endpoint resource_id params hs =
     \<lparr> start = (\<lambda>w.
         case request_start en ''GET'' (endpoint @ ''/'' @ resource_id) params None hs w of
           (Inl e, w1) \<Rightarrow>
             (Inl (GmailResourceError
                     (''Failed to get '' @ endpoint @ ''/'' @ resource_id @ '': '' @ str_error e)), w1)
         | (Inr c, w1) \<Rightarrow> (Inr c, w1)),
       finish = (\<lambda>out.
         case request_finish out of
           Inl e \<Rightarrow>
             Inl (GmailResourceError
                    (''Failed to get '' @ endpoint @ ''/'' @ resource_id @ '': '' @ str_error e))
         | Inr v \<Rightarrow> Inr v) \<rparr>"

text \<open>
  \<open>asyncio.gather\<close> over tasks created in list order.  Every task first runs up to its
  await, in list order; an exception raised there ends the gather with the first such
  exception.  Otherwise the answers arrive in an order the program does not control:
  \<open>sched\<close> names the tasks in the order their calls complete.  Any list is a schedule:
  indices out of range and repetitions are dropped, and tasks it does not name complete
  afterwards in list order.  A result is stored at the position of its task; the first
  exception ends the gather.
\<close>

fun start_all :: "task list \<Rightarrow> world \<Rightarrow> (error + http_call) list \<times> world" where
  "start_all [] w = ([], w)"
| "start_all (t # ts) w =
     (case start t w of (r, w1) \<Rightarrow> (case start_all ts w1 of (rs, w2) \<Rightarrow> (r # rs, w2)))"

fun first_error :: "(error + 'a) list \<Rightarrow> error option" where
  "first_error [] = None"
| "first_error (Inl e # rs) = Some e"
| "first_error (Inr c # rs) = first_error rs"

fun issued_calls :: "(error + 'a) list \<Rightarrow> 'a list" where
  "issued_calls [] = []"
| "issued_calls (Inl e # rs) = issued_calls rs"
| "issued_calls (Inr c # rs) = c # issued_calls rs"

definition completion_order :: "nat \<Rightarrow> nat list \<Rightarrow> nat list" where
  "completion_order n sched =
     remdups (filter (\<lambda>i. i < n) sched) @ filter (\<lambda>i. i \<notin> set sched) [0..<n]"

fun complete ::
  "env \<Rightarrow> task list \<Rightarrow> http_call list \<Rightarrow> nat list \<Rightarrow> json list \<Rightarrow> world \<Rightarrow>
   (error + json list) \<times> world"
where
  "complete en ts cs [] acc w = (Inr acc, w)"
| "complete en ts cs (i # is) acc w =
     (case await_call en (cs ! i) w of
        (out, w1) \<Rightarrow>
          (case finish (ts ! i) out of
             Inl e \<Rightarrow> (Inl e, w1)
           | Inr v \<Rightarrow> complete en ts cs is (acc[i := v]) w1))"

definition gather :: "env \<Rightarrow> task list \<Rightarrow> nat list \<Rightarrow> world \<Rightarrow> (error + json list) \<times> world" where
  "gather en ts sched w =
     (case start_all ts w of
        (rs, w1) \<Rightarrow>
          (case first_error rs of
             Some e \<Rightarrow> (Inl e, w1)
           | None \<Rightarrow>
               complete en ts (issued_calls rs) (completion_order (length ts) sched)
                 (replicate (length ts) JNull) w1))"

text \<open>\<open>for resource in resources\<close>: what iterating a decoded value yields.\<close>

fun iterate :: "json \<Rightarrow> error + json list" where
  "iterate (JArr xs) = Inr xs"
| "iterate (JObj kvs) = Inr (map (\<lambda>kv. JStr (fst kv)) kvs)"
| "iterate (JStr s) = Inr (map (\<lambda>c. JStr [c]) s)"
| "iterate v =
     Inl (TypeError ([CHR 0x27] @ type_name v @ [CHR 0x27] @ '' object is not iterable''))"

text \<open>\<open>resource.get("id")\<close> for each resource in turn; the first failure is raised.\<close>

fun stub_ids :: "json list \<Rightarrow> error + json list" where
  "stub_ids [] = Inr []"
| "stub_ids (r # rs) =
     (case py_get r ''id'' JNull of
        Inl e \<Rightarrow> Inl e
      | Inr i \<Rightarrow> (case stub_ids rs of Inl e \<Rightarrow> Inl e | Inr is \<Rightarrow> Inr (i # is)))"

text \<open>
  How an f-string prints an id taken from a stub.  The handlers below take the id as
  the string it prints as; a stub's id, which may be any decoded value, is printed here.
\<close>

fun format_id :: "env \<Rightarrow> json \<Rightarrow> string" where
  "format_id en (JStr s) = s"
| "format_id en JNull = ''None''"
| "format_id en (JBool b) = (if b then ''True'' else ''False'')"
| "format_id en (JNum n) = str_int n"
| "format_id en v = py_str en v"

text \<open>
  \<open>get_all_with_details\<close> calls \<open>self.get_all(endpoint, list_key, params=params,
  headers=headers)\<close> (line 208 of base.py), and \<open>self.get_all\<close> is the method of the
  object's class: \<open>self_get_all\<close> stands for it, applied to the four arguments of that
  call.  On a plain \<open>BaseGmailResource\<close> it is \<open>get_all\<close> above.
\<close>

type_synonym get_all_method =
  "string \<Rightarrow> string \<Rightarrow> (string \<times> string) list option \<Rightarrow> headers option \<Rightarrow> world \<Rightarrow>
   (error + json) \<times> world"

text \<open>
  On \<open>GmailMessages\<close>, \<open>GmailDrafts\<close> and \<open>GmailThreads\<close> it is the override
  \<open>get_all(self, params=None, headers=None, details=False)\<close>.  The two positional
  arguments of the call bind \<open>params\<close> and \<open>headers\<close>, so the keyword \<open>params\<close> is a
  second value for the same parameter: Python raises \<open>TypeError\<close> while binding the
  arguments, before the body of the override runs.
\<close>

definition override_get_all :: "string \<Rightarrow> get_all_method" where
  "override_get_all cls endpoint list_key params hs w =
     (Inl (TypeError (cls @ ''.get_all() got multiple values for argument '' @
                      [CHR 0x27] @ ''params'' @ [CHR 0x27])), w)"

definition get_all_with_details ::
  "env \<Rightarrow> get_all_method \<Rightarrow> string \<Rightarrow> string \<Rightarrow> (string \<Rightarrow> headers option \<Rightarrow> task) \<Rightarrow>
   (string \<times> string) list option \<Rightarrow> headers option \<Rightarrow> nat list \<Rightarrow> world \<Rightarrow>
   (error + json) \<times> world"
where
  "get_all_with_details en self_get_all endpoint list_key get_detail_func params hs sched w =
     (case self_get_all endpoint list_key params hs w of
        (Inl e, w1) \<Rightarrow> (Inl e, w1)
      | (Inr resources, w1) \<Rightarrow>
          if \<not> truthy resources then (Inr (JArr []), w1)
          else
            (case iterate resources of
               Inl e \<Rightarrow> (Inl e, w1)
             | Inr rs \<Rightarrow>
                 (case stub_ids rs of
                    Inl e \<Rightarrow> (Inl e, w1)
                  | Inr ids \<Rightarrow>
                      (case gather en (map (\<lambda>i. get_detail_func (format_id en i) hs) ids)
                              sched w1 of
                         (Inl e, w2) \<Rightarrow> (Inl e, w2)
                       | (Inr vs, w2) \<Rightarrow> (Inr (JArr vs), w2)))))"

section \<open>GmailMessages, GmailDrafts, GmailThreads\<close>

definition full_format :: "env \<Rightarrow> (string \<times> string) list option" where
  "full_format en = Some [(''format'', FULL_FORMAT (cfg en))]"

definition messages_get_by_id ::
  "env \<Rightarrow> string \<Rightarrow> headers option \<Rightarrow> world \<Rightarrow> (error + json) \<times> world"
where
  "messages_get_by_id en message_id hs w =
     get_by_id en (MESSAGES_ENDPOINT (cfg en)) message_id (full_format en) hs w"

definition messages_get_by_id_task :: "env \<Rightarrow> string \<Rightarrow> headers option \<Rightarrow> task" where
  "messages_get_by_id_task en message_id hs =
     get_by_id_task en (MESSAGES_ENDPOINT (cfg en)) message_id (full_format en) hs"

definition messages_get_all ::
  "env \<Rightarrow> (string \<times> string) list option \<Rightarrow> headers option \<Rightarrow> bool \<Rightarrow> nat list \<Rightarrow> world \<Rightarrow>
   (error + json) \<times> world"
where
  "messages_get_all en params hs details sched w =
     (if details
      then get_all_with_details en (override_get_all ''GmailMessages'') (MESSAGES_ENDPOINT (cfg en)) ''messages''
             (messages_get_by_id_task en) params hs sched w
      else get_all en (MESSAGES_ENDPOINT (cfg en)) ''messages'' params hs w)"

definition messages_send ::
  "env \<Rightarrow> json \<Rightarrow> headers option \<Rightarrow> world \<Rightarrow> (error + json) \<times> world"
where
  "messages_send en message hs w = create en (SEND_ENDPOINT (cfg en)) message hs w"

definition messages_delete ::
  "env \<Rightarrow> string \<Rightarrow> headers option \<Rightarrow> world \<Rightarrow> (error + unit) \<times> world"
where
  "messages_delete en message_id hs w = delete en (MESSAGES_ENDPOINT (cfg en)) message_id hs w"

definition messages_update ::
  "env \<Rightarrow> string \<Rightarrow> json \<Rightarrow> headers option \<Rightarrow> world \<Rightarrow> (error + json) \<times> world"
where
  "messages_update en message_id data hs w =
     update en (MESSAGES_ENDPOINT (cfg en)) message_id data hs w"

definition drafts_get_by_id ::
  "env \<Rightarrow> string \<Rightarrow> headers option \<Rightarrow> world \<Rightarrow> (error + json) \<times> world"
where
  "drafts_get_by_id en draft_id hs w =
     get_by_id en (DRAFTS_ENDPOINT (cfg en)) draft_id (full_format en) hs w"

definition drafts_get_by_id_task :: "env \<Rightarrow> string \<Rightarrow> headers option \<Rightarrow> task" where
  "drafts_get_by_id_task en draft_id hs =
     get_by_id_task en (DRAFTS_ENDPOINT (cfg en)) draft_id (full_format en) hs"

definition drafts_get_all ::
  "env \<Rightarrow> (string \<times> string) list option \<Rightarrow> headers option \<Rightarrow> bool \<Rightarrow> nat list \<Rightarrow> world \<Rightarrow>
   (error + json) \<times> world"
where
  "drafts_get_all en params hs details sched w =
     (if details
      then get_all_with_details en (override_get_all ''GmailDrafts'') (DRAFTS_ENDPOINT (cfg en)) ''drafts''
             (drafts_get_by_id_task en) params hs sched w
      else get_all en (DRAFTS_ENDPOINT (cfg en)) ''drafts'' params hs w)"

definition drafts_create ::
  "env \<Rightarrow> json \<Rightarrow> headers option \<Rightarrow> world \<Rightarrow> (error + json) \<times> world"
where
  "drafts_create en message hs w =
     create en (DRAFTS_ENDPOINT (cfg en)) (JObj [(''message'', message)]) hs w"

definition drafts_update ::
  "env \<Rightarrow> string \<Rightarrow> json \<Rightarrow> headers option \<Rightarrow> world \<Rightarrow> (error + json) \<times> world"
where
  "drafts_update en draft_id message hs w =
     update en (DRAFTS_ENDPOINT (cfg en)) draft_id (JObj [(''message'', message)]) hs w"

definition drafts_delete ::
  "env \<Rightarrow> string \<Rightarrow> headers option \<Rightarrow> world \<Rightarrow> (error + unit) \<times> world"
where
  "drafts_delete en draft_id hs w = delete en (DRAFTS_ENDPOINT (cfg en)) draft_id hs w"

definition threads_get_by_id ::
  "env \<Rightarrow> string \<Rightarrow> headers option \<Rightarrow> world \<Rightarrow> (error + json) \<times> world"
where
  "threads_get_by_id en thread_id hs w =
     get_by_id en (THREADS_ENDPOINT (cfg en)) thread_id (full_format en) hs w"

definition threads_get_by_id_task :: "env \<Rightarrow> string \<Rightarrow> headers option \<Rightarrow> task" where
  "threads_get_by_id_task en thread_id hs =
     get_by_id_task en (THREADS_ENDPOINT (cfg en)) thread_id (full_format en) hs"

definition threads_get_all ::
  "env \<Rightarrow> (string \<times> string) list option \<Rightarrow> headers option \<Rightarrow> bool \<Rightarrow> nat list \<Rightarrow> world \<Rightarrow>
   (error + json) \<times> world"
where
  "threads_get_all en params hs details sched w =
     (if details
      then get_all_with_details en (override_get_all ''GmailThreads'') (THREADS_ENDPOINT (cfg en)) ''threads''
             (threads_get_by_id_task en) params hs sched w
      else get_all en (THREADS_ENDPOINT (cfg en)) ''threads'' params hs w)"

definition threads_delete ::
  "env \<Rightarrow> string \<Rightarrow> headers option \<Rightarrow> world \<Rightarrow> (error + unit) \<times> world"
where
  "threads_delete en thread_id hs w = delete en (THREADS_ENDPOINT (cfg en)) thread_id hs w"

definition threads_undelete ::
  "env \<Rightarrow> string \<Rightarrow> headers option \<Rightarrow> world \<Rightarrow> (error + unit) \<times> world"
where
  "threads_undelete en thread_id hs w = undelete en (THREADS_ENDPOINT (cfg en)) thread_id hs w"

text \<open>The calls a trace says were issued, in order.\<close>

fun sent :: "event list \<Rightarrow> http_call list" where
  "sent [] = []"
| "sent (HttpSent c # es) = c # sent es"
| "sent (e # es) = sent es"

section \<open>Building a message (resources/messages.py)\<close>















section \<open>A concrete environment\<close>

text \<open>
  A small environment and world on which the definitions can be run: a refresh that
  succeeds, a consent flow that succeeds, effects that take no time, and the remote end
  described below.
\<close>

definition demo_cred :: "int \<Rightarrow> credential" where
  "demo_cred e = \<lparr>token = Some ''tok'', refresh_token = Some ''ref'', expiry = Some e\<rparr>"

text \<open>
  The remote end of the examples: two message stubs in the list, no list key in the
  drafts envelope, a message that does not exist, an address that cannot be reached;
  any other call is answered with the number of calls issued so far.
\<close>

definition demo_transport :: "event list \<Rightarrow> http_call \<Rightarrow> outcome" where
  "demo_transport h c =
     (if call_url c = ''https://gmail.googleapis.com/gmail/v1/users/me/messages''
      then Response 200 ''...''
             (Inr (JObj [(''messages'', JArr [JObj [(''id'', JStr ''a'')], JObj [(''id'', JStr ''b'')]])]))
             (call_url c)
      else if call_url c = ''https://gmail.googleapis.com/gmail/v1/users/me/drafts''
      then Response 200 ''{}'' (Inr (JObj [(''resultSizeEstimate'', JNum 0)])) (call_url c)
      else if call_url c = ''https://gmail.googleapis.com/gmail/v1/users/me/messages/missing''
      then Response 404 ''Not Found'' (Inl ''Expecting value'') (call_url c)
      else if call_url c = ''https://gmail.googleapis.com/gmail/v1/users/me/messages/down''
      then RequestFailed (call_url c) ''connection refused''
      else Response 200 ''...''
             (Inr (JObj [(''url'', JStr (call_url c)), (''seq'', JNum (int (length (sent h))))]))
             (call_url c))"

definition demo_env :: env where
  "demo_env =
     \<lparr> TOKEN_PATH = ''backend/token.json'',
       CREDENTIALS_PATH = ''backend/credentials.json'',
       credentials_file_exists = True,
       token_writable = True,
       refresh = (\<lambda>c t. Inr (c\<lparr>token := Some ''tok2'', expiry := Some (t + 3600)\<rparr>)),
       run_local_server = (\<lambda>t. Inr (demo_cred (t + 3600))),
       HTTP_PROXY = None,
       transport = demo_transport,
       base_url = BASE_URL GmailConfig,
       cfg = GmailConfig,
       py_str = (\<lambda>j. ''?''),
       elapse = (\<lambda>e. 0) \<rparr>"


definition demo_world :: "credential option \<Rightarrow> token_file \<Rightarrow> world" where
  "demo_world c f = \<lparr>cached = c, client = None, token_store = f, now = 1000, trace = []\<rparr>"

section \<open>Running the definitions\<close>

text \<open>The equations that unfold the concrete environment and the client on a concrete input.\<close>

lemmas demo_defs =
  demo_env_def demo_world_def demo_cred_def demo_transport_def GmailConfig_def

lemmas auth_defs =
  get_auth_headers_def get_credentials_def acquire_def load_token_def renew_and_save_def
  renew_def get_new_credentials_def save_token_def log_event_def valid_def expired_def Let_def

lemmas client_defs =
  client_get_def client_post_def client_put_def client_delete_def request_def
  request_start_def get_client_def await_call_def merge_headers_def method_of_def
  is_success_def str_int_def digit_char_def

section \<open>The authenticator\<close>

subsection \<open>Clock and trace\<close>





lemma save_token_trace: "trace (save_token en c w) = trace w @ [TokenWrite]"
  by (simp add: save_token_def log_event_def)

lemma load_token_trace:
  assumes "load_token en w = (r, w1)"
  shows "\<exists>evs. trace w1 = trace w @ evs \<and> TokenWrite \<notin> set evs \<and> sent evs = []"
  using assms
  by (auto simp: load_token_def Let_def log_event_def split: token_file.splits)

lemma get_new_credentials_trace:
  assumes "get_new_credentials en w = (r, w1)"
  shows "\<exists>evs. trace w1 = trace w @ evs \<and> TokenWrite \<notin> set evs \<and> sent evs = []"
  using assms
  by (auto simp: get_new_credentials_def Let_def log_event_def split: if_splits sum.splits)

lemma renew_trace:
  assumes "renew en creds w = (r, w1)"
  shows "\<exists>evs. trace w1 = trace w @ evs \<and> TokenWrite \<notin> set evs \<and> sent evs = []"
proof (cases "case creds of None \<Rightarrow> False
                | Some c \<Rightarrow> expired c (now w) \<and> refresh_token c \<noteq> None \<and> refresh_token c \<noteq> Some []")
  case True
  with assms have "trace w1 = trace w @ [Refresh]"
    by (auto simp: renew_def Let_def log_event_def split: option.splits sum.splits)
  then show ?thesis by simp
next
  case False
  with assms have "get_new_credentials en w = (r, w1)"
    by (auto simp: renew_def split: option.splits)
  then show ?thesis by (rule get_new_credentials_trace)
qed

text \<open>
  C9.  When the cached credential exists and is valid, \<open>get_credentials\<close> returns it and
  leaves the world as it was: the token file is neither tested for, read nor written
  (the trace gains no event and the stored token is unchanged).
\<close>

theorem cached_valid_touches_no_storage:
  assumes "cached w = Some c" and "valid c (now w)"
  shows "get_credentials en w = (Inr c, w)
         \<and> trace (snd (get_credentials en w)) = trace w
         \<and> token_store (snd (get_credentials en w)) = token_store w"
  using assms by (simp add: get_credentials_def)

theorem cached_valid_touches_no_storage_witness:
  "cached (demo_world (Some (demo_cred 5000)) Absent) = Some (demo_cred 5000)
   \<and> valid (demo_cred 5000) (now (demo_world (Some (demo_cred 5000)) Absent))
   \<and> get_credentials demo_env (demo_world (Some (demo_cred 5000)) Absent)
       = (Inr (demo_cred 5000), demo_world (Some (demo_cred 5000)) Absent)
   \<and> trace (snd (get_credentials demo_env (demo_world (Some (demo_cred 5000)) Absent))) = []"
proof -
  have c: "cached (demo_world (Some (demo_cred 5000)) Absent) = Some (demo_cred 5000)"
    by (simp add: demo_world_def)
  have v: "valid (demo_cred 5000) (now (demo_world (Some (demo_cred 5000)) Absent))"
    by (simp add: demo_world_def demo_cred_def valid_def expired_def)
  have t: "trace (demo_world (Some (demo_cred 5000)) Absent) = []"
    by (simp add: demo_world_def)
  from cached_valid_touches_no_storage [OF c v, of demo_env] c v t show ?thesis by simp
qed

subsection \<open>Validity of the returned credential\<close>









section \<open>The HTTP client\<close>

lemma sent_append: "sent (xs @ ys) = sent xs @ sent ys"
  by (induction xs rule: sent.induct) simp_all

lemma quiet_trans:
  assumes "\<exists>evs. trace b = trace a @ evs \<and> sent evs = []"
      and "\<exists>evs. trace c = trace b @ evs \<and> sent evs = []"
  shows "\<exists>evs. trace c = trace a @ evs \<and> sent evs = []"
  using assms by (auto simp: sent_append)

lemma renew_and_save_quiet:
  assumes "renew_and_save en creds w = (r, w1)"
  shows "\<exists>evs. trace w1 = trace w @ evs \<and> sent evs = []"
proof (cases "renew en creds w")
  case (Pair r0 w0)
  then obtain evs where evs: "trace w0 = trace w @ evs" "sent evs = []"
    using renew_trace by blast
  show ?thesis
  proof (cases r0)
    case (Inl e)
    with Pair assms have "w1 = w0" by (simp add: renew_and_save_def)
    with evs show ?thesis by simp
  next
    case (Inr c)
    with Pair assms have "w1 = (save_token en c w0)\<lparr>cached := Some c\<rparr>"
      by (simp add: renew_and_save_def)
    with evs have "trace w1 = trace w @ (evs @ [TokenWrite]) \<and> sent (evs @ [TokenWrite]) = []"
      by (simp add: save_token_trace sent_append)
    then show ?thesis by blast
  qed
qed

lemma acquire_quiet:
  assumes "acquire en w = (r, w1)"
  shows "\<exists>evs. trace w1 = trace w @ evs \<and> sent evs = []"
proof (cases "load_token en w")
  case (Pair r0 w0)
  then have q: "\<exists>evs. trace w0 = trace w @ evs \<and> sent evs = []"
    using load_token_trace by blast
  show ?thesis
  proof (cases "\<exists>creds. r0 = Inr creds \<and> \<not> (case creds of Some c \<Rightarrow> valid c (now w0) | None \<Rightarrow> False)")
    case True
    then obtain creds where "r0 = Inr creds"
      and "\<not> (case creds of Some c \<Rightarrow> valid c (now w0) | None \<Rightarrow> False)" by blast
    with Pair assms have "renew_and_save en creds w0 = (r, w1)"
      by (auto simp: acquire_def split: option.splits if_splits)
    then have "\<exists>evs. trace w1 = trace w0 @ evs \<and> sent evs = []"
      by (rule renew_and_save_quiet)
    with q show ?thesis by (rule quiet_trans)
  next
    case False
    with Pair assms have "trace w1 = trace w0"
      by (auto simp: acquire_def split: sum.splits option.splits if_splits)
    with q show ?thesis by simp
  qed
qed

lemma get_credentials_quiet:
  assumes "get_credentials en w = (r, w1)"
  shows "\<exists>evs. trace w1 = trace w @ evs \<and> sent evs = []"
proof (cases "case cached w of Some c \<Rightarrow> valid c (now w) | None \<Rightarrow> False")
  case True
  with assms have "w1 = w"
    by (auto simp: get_credentials_def split: option.splits)
  then show ?thesis by simp
next
  case False
  with assms have "acquire en w = (r, w1)"
    by (auto simp: get_credentials_def split: option.splits if_splits)
  then show ?thesis by (rule acquire_quiet)
qed

lemma get_auth_headers_quiet:
  assumes "get_auth_headers en w = (r, w1)"
  shows "\<exists>evs. trace w1 = trace w @ evs \<and> sent evs = []"
proof (cases "get_credentials en w")
  case (Pair r0 w0)
  with assms have "w1 = w0"
    by (auto simp: get_auth_headers_def split: sum.splits)
  with Pair show ?thesis by (auto dest: get_credentials_quiet)
qed

lemma get_client_quiet:
  assumes "get_client en proxy w = (r, w1)"
  shows "\<exists>evs. trace w1 = trace w @ evs \<and> sent evs = []"
proof (cases "client w")
  case (Some cl)
  with assms show ?thesis by (simp add: get_client_def)
next
  case None
  obtain r0 w0 where g: "get_auth_headers en w = (r0, w0)"
    by (cases "get_auth_headers en w")
  with None assms have "trace w1 = trace w0"
    by (auto simp: get_client_def Let_def split: sum.splits)
  with g show ?thesis by (auto dest: get_auth_headers_quiet)
qed

text \<open>
  \<open>request\<close> up to the await: the effects before the call are no HTTP calls; when it
  raises, no call has been issued, and when it issues a call, that call is the last
  effect, its method is the one asked for and its URL is the base URL, a slash and the
  endpoint.
\<close>

lemma request_start_spec:
  assumes "request_start en method endpoint params data hs w = (r, w1)"
  shows "case r of
           Inl e \<Rightarrow> (\<exists>evs. trace w1 = trace w @ evs \<and> sent evs = [])
         | Inr c \<Rightarrow> (\<exists>evs m h. trace w1 = trace w @ evs @ [HttpSent c] \<and> sent evs = []
                        \<and> method_of method = Some m
                        \<and> c = make_call m (base_url en @ ''/'' @ endpoint) h params data)"
proof (cases "get_client en False w")
  case (Pair r0 w0)
  then have q0: "\<exists>evs. trace w0 = trace w @ evs \<and> sent evs = []"
    by (rule get_client_quiet)
  show ?thesis
  proof (cases r0)
    case (Inl e)
    with Pair assms have "r = Inl e" "w1 = w0"
      by (simp_all add: request_start_def)
    with q0 show ?thesis by simp
  next
    case (Inr cl)
    obtain r2 w2 where g: "get_auth_headers en w0 = (r2, w2)"
      by (cases "get_auth_headers en w0")
    then have "\<exists>evs. trace w2 = trace w0 @ evs \<and> sent evs = []"
      by (rule get_auth_headers_quiet)
    with q0 have q2: "\<exists>evs. trace w2 = trace w @ evs \<and> sent evs = []"
      by (rule quiet_trans)
    show ?thesis
    proof (cases r2)
      case (Inl e)
      with Pair Inr g assms have "r = Inl e" "w1 = w2"
        by (simp_all add: request_start_def)
      with q2 show ?thesis by simp
    next
      case auth: (Inr auth)
      show ?thesis
      proof (cases "method_of method")
        case None
        with Pair Inr g auth assms
        have "r = Inl (ValueError (''Unsupported HTTP method: '' @ method))" "w1 = w2"
          by (simp_all add: request_start_def Let_def)
        with q2 show ?thesis by simp
      next
        case (Some m)
        with Pair Inr g auth assms
        have r: "r = Inr (make_call m (base_url en @ ''/'' @ endpoint) (merge_headers auth hs) params data)"
          and w1: "w1 = log_event en (HttpSent (make_call m (base_url en @ ''/'' @ endpoint) (merge_headers auth hs) params data)) w2"
          by (simp_all add: request_start_def Let_def)
        from q2 obtain evs where "trace w2 = trace w @ evs" "sent evs = []" by blast
        with r w1 Some show ?thesis
          by (auto simp: log_event_def)
      qed
    qed
  qed
qed

lemma new_events_sent: "trace w' = trace w @ evs \<Longrightarrow> sent (new_events w w') = sent evs"
  by (simp add: new_events_def)

text \<open>The calls a request issues: none when it raises before the await, else the one.\<close>

lemma request_sent:
  "sent (new_events w (snd (request en method endpoint params data hs w))) =
     (case fst (request_start en method endpoint params data hs w) of
        Inl e \<Rightarrow> [] | Inr c \<Rightarrow> [c])"
proof (cases "request_start en method endpoint params data hs w")
  case (Pair r w1)
  note spec = request_start_spec [OF Pair]
  show ?thesis
  proof (cases r)
    case (Inl e)
    with spec obtain evs where "trace w1 = trace w @ evs" "sent evs = []" by auto
    with Pair Inl show ?thesis
      by (simp add: request_def new_events_sent)
  next
    case (Inr c)
    with spec obtain evs where "trace w1 = trace w @ evs @ [HttpSent c]" "sent evs = []" by auto
    then have "trace (snd (await_call en c w1)) = trace w @ (evs @ [HttpSent c, HttpDone c (transport en (trace w1) c)])"
      and "sent (evs @ [HttpSent c, HttpDone c (transport en (trace w1) c)]) = [c]"
      by (simp_all add: await_call_def log_event_def Let_def sent_append)
    moreover from Pair Inr
    have "snd (request en method endpoint params data hs w) = snd (await_call en c w1)"
      by (simp add: request_def split: prod.splits)
    ultimately show ?thesis using Pair Inr
      by (simp add: new_events_sent)
  qed
qed

text \<open>
  C3.  Once \<open>request\<close> has issued its call: when the call completes with a status outside
  200..299, \<open>request\<close> raises \<open>GmailAPIError\<close> carrying that status code and that body
  text; when the call fails at the transport level, it raises \<open>GmailRequestError\<close>, which
  is no \<open>GmailAPIError\<close>.  The same holds for \<open>get\<close>, \<open>post\<close>, \<open>put\<close> and \<open>delete\<close>,
  which are \<open>request\<close> with the method fixed.
\<close>

theorem client_error_taxonomy:
  assumes "request_start en method endpoint params data hs w = (Inr c, w1)"
  shows "(transport en (trace w1) c = Response st body js url \<and> \<not> (200 \<le> st \<and> st \<le> 299) \<longrightarrow>
            fst (request en method endpoint params data hs w) =
              Inl (GmailAPIError (''HTTP error for '' @ url @ '' - '' @ str_int st @ '' - '' @ body)
                     st body))
         \<and> (transport en (trace w1) c = RequestFailed url m \<longrightarrow>
              fst (request en method endpoint params data hs w) =
                Inl (GmailRequestError (''Request error for '' @ url @ '': '' @ m))
              \<and> \<not> is_APIError (GmailRequestError (''Request error for '' @ url @ '': '' @ m))
              \<and> is_RequestError (GmailRequestError (''Request error for '' @ url @ '': '' @ m)))"
  using assms
  by (simp add: request_def await_call_def Let_def is_success_def)

lemma demo_start:
  "request_start demo_env ''GET'' ep None None None (demo_world (Some (demo_cred 5000)) Absent) =
     (Inr \<lparr>call_method = GET, call_url = ''https://gmail.googleapis.com/gmail/v1/users/me/'' @ ep,
            call_headers = [(''Authorization'', ''Bearer tok''), (''Content-Type'', ''application/json'')],
            call_params = None, call_json = None\<rparr>,
      \<lparr>cached = Some (demo_cred 5000),
       client = Some \<lparr>client_headers = [(''Authorization'', ''Bearer tok''), (''Content-Type'', ''application/json'')],
                      client_proxies = None\<rparr>,
       token_store = Absent, now = 1000,
       trace = [HttpSent \<lparr>call_method = GET, call_url = ''https://gmail.googleapis.com/gmail/v1/users/me/'' @ ep,
            call_headers = [(''Authorization'', ''Bearer tok''), (''Content-Type'', ''application/json'')],
            call_params = None, call_json = None\<rparr>]\<rparr>)"
  by (simp add: client_defs auth_defs demo_defs)

theorem client_error_taxonomy_witness:
  "fst (request demo_env ''GET'' ''messages/missing'' None None None
          (demo_world (Some (demo_cred 5000)) Absent)) =
     Inl (GmailAPIError
            ''HTTP error for https://gmail.googleapis.com/gmail/v1/users/me/messages/missing - 404 - Not Found''
            404 ''Not Found'')
   \<and> fst (request demo_env ''GET'' ''messages/down'' None None None
            (demo_world (Some (demo_cred 5000)) Absent)) =
     Inl (GmailRequestError
            ''Request error for https://gmail.googleapis.com/gmail/v1/users/me/messages/down: connection refused'')"
proof -
  let ?h = "[(''Authorization'', ''Bearer tok''), (''Content-Type'', ''application/json'')]"
  let ?c = "\<lambda>ep. \<lparr>call_method = GET, call_url = ''https://gmail.googleapis.com/gmail/v1/users/me/'' @ ep,
            call_headers = ?h, call_params = None, call_json = None\<rparr>"
  let ?w1 = "\<lambda>ep. \<lparr>cached = Some (demo_cred 5000),
       client = Some \<lparr>client_headers = ?h, client_proxies = None\<rparr>,
       token_store = Absent, now = 1000, trace = [HttpSent (?c ep)]\<rparr>"
  have t1: "transport demo_env (trace (?w1 ''messages/missing'')) (?c ''messages/missing'') =
        Response 404 ''Not Found'' (Inl ''Expecting value'')
          ''https://gmail.googleapis.com/gmail/v1/users/me/messages/missing''"
    by (simp add: demo_defs)
  have t2: "transport demo_env (trace (?w1 ''messages/down'')) (?c ''messages/down'') =
        RequestFailed ''https://gmail.googleapis.com/gmail/v1/users/me/messages/down''
          ''connection refused''"
    by (simp add: demo_defs)
  have s: "str_int 404 = ''404''"
    by (simp add: str_int_def digit_char_def)
  from client_error_taxonomy [OF demo_start [of "''messages/missing''"],
         of 404 "''Not Found''" "Inl ''Expecting value''"
            "''https://gmail.googleapis.com/gmail/v1/users/me/messages/missing''"] t1 s
  have a: "fst (request demo_env ''GET'' ''messages/missing'' None None None
          (demo_world (Some (demo_cred 5000)) Absent)) =
     Inl (GmailAPIError
            ''HTTP error for https://gmail.googleapis.com/gmail/v1/users/me/messages/missing - 404 - Not Found''
            404 ''Not Found'')"
    by simp
  from client_error_taxonomy [OF demo_start [of "''messages/down''"],
         where url = "''https://gmail.googleapis.com/gmail/v1/users/me/messages/down''"
           and m = "''connection refused''"] t2
  have b: "fst (request demo_env ''GET'' ''messages/down'' None None None
            (demo_world (Some (demo_cred 5000)) Absent)) =
     Inl (GmailRequestError
            ''Request error for https://gmail.googleapis.com/gmail/v1/users/me/messages/down: connection refused'')"
    by simp
  from a b show ?thesis by simp
qed

lemma request_start_cached:
  assumes "cached w = Some cr" and "valid cr (now w)" and "method_of method = Some m"
  shows "\<exists>c. fst (request_start en method endpoint params data hs w) = Inr c"
  using assms
  by (auto simp: request_start_def get_client_def get_auth_headers_def get_credentials_def Let_def
           split: option.splits)

lemma method_of_None: "method \<notin> {''GET'', ''POST'', ''PUT'', ''DELETE''} \<Longrightarrow> method_of method = None"
  by (simp add: method_of_def)

text \<open>
  C5, as the claim states it, fails.  \<open>request\<close> builds the client and the authorisation
  headers before it looks at the method.  With no token file and no credentials file the
  unsupported method \<open>PATCH\<close> ends in \<open>GmailCredentialsError\<close>, which is no \<open>ValueError\<close>;
  and with an expired token in the token file the \<open>ValueError\<close> is raised only after the
  token has been refreshed, a round trip to the authorisation server.
\<close>

theorem unsupported_method_raises_credentials_error:
  "''PATCH'' \<notin> {''GET'', ''POST'', ''PUT'', ''DELETE''}
   \<and> fst (request (demo_env\<lparr>credentials_file_exists := False\<rparr>) ''PATCH'' ''messages'' None None None
            (demo_world None Absent)) =
       Inl (GmailCredentialsError ''Credentials file missing: backend/credentials.json'')
   \<and> \<not> is_ValueError (GmailCredentialsError ''Credentials file missing: backend/credentials.json'')
   \<and> fst (request demo_env ''PATCH'' ''messages'' None None None
            (demo_world None (Stored (demo_cred 500)))) =
       Inl (ValueError ''Unsupported HTTP method: PATCH'')
   \<and> trace (snd (request demo_env ''PATCH'' ''messages'' None None None
                    (demo_world None (Stored (demo_cred 500))))) =
       [TokenExists, TokenRead, Refresh, TokenWrite]"
  by (simp add: client_defs auth_defs demo_defs)

text \<open>
  C5, amended.  For every method string other than GET, POST, PUT and DELETE,
  \<open>request\<close> fails and issues no HTTP call.  The failure is the \<open>ValueError\<close> once the
  client and the authorisation headers have been obtained; when obtaining them fails,
  the failure is the authenticator's error instead.
\<close>

theorem unsupported_method_issues_no_call:
  assumes "method \<notin> {''GET'', ''POST'', ''PUT'', ''DELETE''}"
  shows "(\<exists>e. fst (request en method endpoint params data hs w) = Inl e)
         \<and> sent (new_events w (snd (request en method endpoint params data hs w))) = []
         \<and> (get_client en False w = (Inr cl, w1) \<and> get_auth_headers en w1 = (Inr h, w2) \<longrightarrow>
              request en method endpoint params data hs w =
                (Inl (ValueError (''Unsupported HTTP method: '' @ method)), w2))
         \<and> (get_client en False w = (Inl e, w1) \<longrightarrow>
              request en method endpoint params data hs w = (Inl e, w1))
         \<and> (get_client en False w = (Inr cl, w1) \<and> get_auth_headers en w1 = (Inl e, w2) \<longrightarrow>
              request en method endpoint params data hs w = (Inl e, w2))"
proof -
  from assms have m: "method_of method = None" by (rule method_of_None)
  then have s: "\<exists>e. fst (request_start en method endpoint params data hs w) = Inl e"
    by (auto simp: request_start_def Let_def split: prod.splits sum.splits)
  then have a: "\<exists>e. fst (request en method endpoint params data hs w) = Inl e"
    by (auto simp: request_def split: prod.splits sum.splits)
  from s have b: "sent (new_events w (snd (request en method endpoint params data hs w))) = []"
    by (auto simp: request_sent)
  from m have c: "get_client en False w = (Inr cl, w1) \<and> get_auth_headers en w1 = (Inr h, w2) \<longrightarrow>
              request en method endpoint params data hs w =
                (Inl (ValueError (''Unsupported HTTP method: '' @ method)), w2)"
    by (simp add: request_def request_start_def Let_def)
  have d: "get_client en False w = (Inl e, w1) \<longrightarrow>
              request en method endpoint params data hs w = (Inl e, w1)"
    by (simp add: request_def request_start_def)
  have f: "get_client en False w = (Inr cl, w1) \<and> get_auth_headers en w1 = (Inl e, w2) \<longrightarrow>
              request en method endpoint params data hs w = (Inl e, w2)"
    by (simp add: request_def request_start_def)
  from a b c d f show ?thesis by blast
qed

theorem unsupported_method_issues_no_call_witness:
  "''PATCH'' \<notin> {''GET'', ''POST'', ''PUT'', ''DELETE''}
   \<and> request demo_env ''PATCH'' ''messages'' None None None
        (demo_world (Some (demo_cred 5000)) Absent) =
       (Inl (ValueError ''Unsupported HTTP method: PATCH''),
        \<lparr>cached = Some (demo_cred 5000),
         client = Some \<lparr>client_headers = [(''Authorization'', ''Bearer tok''),
                                           (''Content-Type'', ''application/json'')],
                        client_proxies = None\<rparr>,
         token_store = Absent, now = 1000, trace = []\<rparr>)
   \<and> sent (new_events (demo_world (Some (demo_cred 5000)) Absent)
             (snd (request demo_env ''PATCH'' ''messages'' None None None
                     (demo_world (Some (demo_cred 5000)) Absent)))) = []"
proof -
  let ?h = "[(''Authorization'', ''Bearer tok''), (''Content-Type'', ''application/json'')]"
  let ?w = "demo_world (Some (demo_cred 5000)) Absent"
  let ?w1 = "\<lparr>cached = Some (demo_cred 5000),
         client = Some \<lparr>client_headers = ?h, client_proxies = None\<rparr>,
         token_store = Absent, now = 1000, trace = []\<rparr>"
  have p: "''PATCH'' \<notin> {''GET'', ''POST'', ''PUT'', ''DELETE''}" by simp
  have g: "get_client demo_env False ?w = (Inr \<lparr>client_headers = ?h, client_proxies = None\<rparr>, ?w1)"
    by (simp add: client_defs auth_defs demo_defs)
  have a: "get_auth_headers demo_env ?w1 = (Inr ?h, ?w1)"
    by (simp add: auth_defs demo_defs)
  from unsupported_method_issues_no_call [OF p, of demo_env "''messages''" None None None ?w
         "\<lparr>client_headers = ?h, client_proxies = None\<rparr>" ?w1 ?h ?w1] g a p
  show ?thesis by (simp add: new_events_def)
qed

text \<open>
  C7.  Every call \<open>delete\<close> issues is a DELETE of \<open><base>/<endpoint>/<id>/trash\<close>, and
  every call \<open>undelete\<close> issues is a POST to \<open><base>/<endpoint>/<id>/untrash\<close>; each
  issues at most one call, and exactly one when a valid credential is cached.  The
  suffixes are those of the configuration, \<open>trash\<close> and \<open>untrash\<close> in \<open>GmailConfig\<close>.
\<close>

theorem delete_undelete_request_paths:
  assumes "cfg en = GmailConfig"
  shows "(\<forall>c \<in> set (sent (new_events w (snd (delete en endpoint rid hs w)))).
            call_method c = DELETE
            \<and> call_url c = base_url en @ ''/'' @ endpoint @ ''/'' @ rid @ ''/trash'')
         \<and> length (sent (new_events w (snd (delete en endpoint rid hs w)))) \<le> 1
         \<and> (\<forall>c \<in> set (sent (new_events w (snd (undelete en endpoint rid hs w)))).
              call_method c = POST
              \<and> call_url c = base_url en @ ''/'' @ endpoint @ ''/'' @ rid @ ''/untrash'')
         \<and> length (sent (new_events w (snd (undelete en endpoint rid hs w)))) \<le> 1
         \<and> (cached w = Some cr \<and> valid cr (now w) \<longrightarrow>
              length (sent (new_events w (snd (delete en endpoint rid hs w)))) = 1
              \<and> length (sent (new_events w (snd (undelete en endpoint rid hs w)))) = 1)"
proof -
  let ?dp = "endpoint @ ''/'' @ rid @ ''/'' @ TRASH_SUFFIX (cfg en)"
  let ?up = "endpoint @ ''/'' @ rid @ ''/'' @ UNTRASH_SUFFIX (cfg en)"
  let ?ds = "request_start en ''DELETE'' ?dp None None hs w"
  let ?us = "request_start en ''POST'' ?up None (Some (JObj [])) hs w"
  have sd: "snd (delete en endpoint rid hs w) = snd (request en ''DELETE'' ?dp None None hs w)"
    by (simp add: delete_def client_delete_def split: prod.splits sum.splits)
  have su: "snd (undelete en endpoint rid hs w) = snd (request en ''POST'' ?up None (Some (JObj [])) hs w)"
    by (simp add: undelete_def client_post_def split: prod.splits sum.splits)
  have d: "sent (new_events w (snd (delete en endpoint rid hs w))) =
             (case fst ?ds of Inl e \<Rightarrow> [] | Inr c \<Rightarrow> [c])"
    unfolding sd by (rule request_sent)
  have u: "sent (new_events w (snd (undelete en endpoint rid hs w))) =
             (case fst ?us of Inl e \<Rightarrow> [] | Inr c \<Rightarrow> [c])"
    unfolding su by (rule request_sent)
  have dc: "call_method c = DELETE \<and> call_url c = base_url en @ ''/'' @ endpoint @ ''/'' @ rid @ ''/trash''"
    if h: "fst ?ds = Inr c" for c
  proof -
    obtain w1 where "?ds = (Inr c, w1)" using h by (cases ?ds) auto
    from request_start_spec [OF this] assms show ?thesis
      by (auto simp: method_of_def GmailConfig_def)
  qed
  have uc: "call_method c = POST \<and> call_url c = base_url en @ ''/'' @ endpoint @ ''/'' @ rid @ ''/untrash''"
    if h: "fst ?us = Inr c" for c
  proof -
    obtain w1 where "?us = (Inr c, w1)" using h by (cases ?us) auto
    from request_start_spec [OF this] assms show ?thesis
      by (auto simp: method_of_def GmailConfig_def)
  qed
  have one: "length (sent (new_events w (snd (delete en endpoint rid hs w)))) = 1
              \<and> length (sent (new_events w (snd (undelete en endpoint rid hs w)))) = 1"
    if "cached w = Some cr" "valid cr (now w)"
  proof -
    have "method_of ''DELETE'' = Some DELETE" and "method_of ''POST'' = Some POST"
      by (simp_all add: method_of_def)
    with that have "\<exists>c. fst ?ds = Inr c" and "\<exists>c. fst ?us = Inr c"
      by (blast intro: request_start_cached)+
    then show ?thesis by (auto simp: d u)
  qed
  from dc uc one show ?thesis
    by (auto simp: d u split: sum.splits)
qed

theorem delete_undelete_request_paths_witness:
  "cfg demo_env = GmailConfig
   \<and> sent (new_events (demo_world (Some (demo_cred 5000)) Absent)
            (snd (delete demo_env ''threads'' ''t1'' None (demo_world (Some (demo_cred 5000)) Absent)))) =
       [\<lparr>call_method = DELETE,
         call_url = ''https://gmail.googleapis.com/gmail/v1/users/me/threads/t1/trash'',
         call_headers = [(''Authorization'', ''Bearer tok''), (''Content-Type'', ''application/json'')],
         call_params = None, call_json = None\<rparr>]
   \<and> sent (new_events (demo_world (Some (demo_cred 5000)) Absent)
            (snd (undelete demo_env ''threads'' ''t1'' None (demo_world (Some (demo_cred 5000)) Absent)))) =
       [\<lparr>call_method = POST,
         call_url = ''https://gmail.googleapis.com/gmail/v1/users/me/threads/t1/untrash'',
         call_headers = [(''Authorization'', ''Bearer tok''), (''Content-Type'', ''application/json'')],
         call_params = None, call_json = Some (JObj [])\<rparr>]
   \<and> base_url demo_env @ ''/'' @ ''threads'' @ ''/'' @ ''t1'' @ ''/trash'' =
       ''https://gmail.googleapis.com/gmail/v1/users/me/threads/t1/trash''"
proof -
  let ?w = "demo_world (Some (demo_cred 5000)) Absent"
  have c: "cfg demo_env = GmailConfig" by (simp add: demo_env_def)
  have d: "sent (new_events ?w (snd (delete demo_env ''threads'' ''t1'' None ?w))) =
       [\<lparr>call_method = DELETE,
         call_url = ''https://gmail.googleapis.com/gmail/v1/users/me/threads/t1/trash'',
         call_headers = [(''Authorization'', ''Bearer tok''), (''Content-Type'', ''application/json'')],
         call_params = None, call_json = None\<rparr>]"
    by (simp add: delete_def new_events_def client_defs auth_defs demo_defs)
  have u: "sent (new_events ?w (snd (undelete demo_env ''threads'' ''t1'' None ?w))) =
       [\<lparr>call_method = POST,
         call_url = ''https://gmail.googleapis.com/gmail/v1/users/me/threads/t1/untrash'',
         call_headers = [(''Authorization'', ''Bearer tok''), (''Content-Type'', ''application/json'')],
         call_params = None, call_json = Some (JObj [])\<rparr>]"
    by (simp add: undelete_def new_events_def client_defs auth_defs demo_defs)
  from delete_undelete_request_paths [OF c, of ?w "''threads''" "''t1''" None] d
  have "base_url demo_env @ ''/'' @ ''threads'' @ ''/'' @ ''t1'' @ ''/trash'' =
       ''https://gmail.googleapis.com/gmail/v1/users/me/threads/t1/trash''"
    by simp
  with c d u show ?thesis by simp
qed

section \<open>The resource handlers\<close>

text \<open>
  C4.  Each of the six handlers turns every error of the client call it makes into a
  \<open>GmailResourceError\<close> whose message names the operation, the endpoint (and the id) and
  the text of the original error; and whatever error a handler raises, from the client
  or from its own body, is a \<open>GmailResourceError\<close>, so that the caller never sees a
  \<open>GmailAPIError\<close> or a \<open>GmailRequestError\<close>.
\<close>

theorem handlers_wrap_client_errors:
  "(client_get en endpoint params hs w = (Inl e, w') \<longrightarrow>
      get_all en endpoint list_key params hs w =
        (Inl (GmailResourceError (''Failed to get '' @ endpoint @ '': '' @ str_error e)), w'))
   \<and> (client_get en (endpoint @ ''/'' @ rid) params hs w = (Inl e, w') \<longrightarrow>
      get_by_id en endpoint rid params hs w =
        (Inl (GmailResourceError
                (''Failed to get '' @ endpoint @ ''/'' @ rid @ '': '' @ str_error e)), w'))
   \<and> (client_post en endpoint data hs w = (Inl e, w') \<longrightarrow>
      create en endpoint data hs w =
        (Inl (GmailResourceError (''Failed to create '' @ endpoint @ '': '' @ str_error e)), w'))
   \<and> (client_put en (endpoint @ ''/'' @ rid) data hs w = (Inl e, w') \<longrightarrow>
      update en endpoint rid data hs w =
        (Inl (GmailResourceError
                (''Failed to update '' @ endpoint @ ''/'' @ rid @ '': '' @ str_error e)), w'))
   \<and> (client_delete en (endpoint @ ''/'' @ rid @ ''/'' @ TRASH_SUFFIX (cfg en)) hs w = (Inl e, w') \<longrightarrow>
      delete en endpoint rid hs w =
        (Inl (GmailResourceError
                (''Failed to delete '' @ endpoint @ ''/'' @ rid @ '': '' @ str_error e)), w'))
   \<and> (client_post en (endpoint @ ''/'' @ rid @ ''/'' @ UNTRASH_SUFFIX (cfg en)) (JObj []) hs w
         = (Inl e, w') \<longrightarrow>
      undelete en endpoint rid hs w =
        (Inl (GmailResourceError
                (''Failed to undelete '' @ endpoint @ ''/'' @ rid @ '': '' @ str_error e)), w'))
   \<and> (fst (get_all en endpoint list_key params hs w) = Inl e' \<longrightarrow> is_ResourceError e')
   \<and> (fst (get_by_id en endpoint rid params hs w) = Inl e' \<longrightarrow> is_ResourceError e')
   \<and> (fst (create en endpoint data hs w) = Inl e' \<longrightarrow> is_ResourceError e')
   \<and> (fst (update en endpoint rid data hs w) = Inl e' \<longrightarrow> is_ResourceError e')
   \<and> (fst (delete en endpoint rid hs w) = Inl e' \<longrightarrow> is_ResourceError e')
   \<and> (fst (undelete en endpoint rid hs w) = Inl e' \<longrightarrow> is_ResourceError e')"
proof -
  have wrap: "(client_get en endpoint params hs w = (Inl e, w') \<longrightarrow>
      get_all en endpoint list_key params hs w =
        (Inl (GmailResourceError (''Failed to get '' @ endpoint @ '': '' @ str_error e)), w'))
   \<and> (client_get en (endpoint @ ''/'' @ rid) params hs w = (Inl e, w') \<longrightarrow>
      get_by_id en endpoint rid params hs w =
        (Inl (GmailResourceError
                (''Failed to get '' @ endpoint @ ''/'' @ rid @ '': '' @ str_error e)), w'))
   \<and> (client_post en endpoint data hs w = (Inl e, w') \<longrightarrow>
      create en endpoint data hs w =
        (Inl (GmailResourceError (''Failed to create '' @ endpoint @ '': '' @ str_error e)), w'))
   \<and> (client_put en (endpoint @ ''/'' @ rid) data hs w = (Inl e, w') \<longrightarrow>
      update en endpoint rid data hs w =
        (Inl (GmailResourceError
                (''Failed to update '' @ endpoint @ ''/'' @ rid @ '': '' @ str_error e)), w'))
   \<and> (client_delete en (endpoint @ ''/'' @ rid @ ''/'' @ TRASH_SUFFIX (cfg en)) hs w = (Inl e, w') \<longrightarrow>
      delete en endpoint rid hs w =
        (Inl (GmailResourceError
                (''Failed to delete '' @ endpoint @ ''/'' @ rid @ '': '' @ str_error e)), w'))
   \<and> (client_post en (endpoint @ ''/'' @ rid @ ''/'' @ UNTRASH_SUFFIX (cfg en)) (JObj []) hs w
         = (Inl e, w') \<longrightarrow>
      undelete en endpoint rid hs w =
        (Inl (GmailResourceError
                (''Failed to undelete '' @ endpoint @ ''/'' @ rid @ '': '' @ str_error e)), w'))"
    by (simp add: get_all_def get_by_id_def create_def update_def delete_def undelete_def)
  have only: "(fst (get_all en endpoint list_key params hs w) = Inl e' \<longrightarrow> is_ResourceError e')
   \<and> (fst (get_by_id en endpoint rid params hs w) = Inl e' \<longrightarrow> is_ResourceError e')
   \<and> (fst (create en endpoint data hs w) = Inl e' \<longrightarrow> is_ResourceError e')
   \<and> (fst (update en endpoint rid data hs w) = Inl e' \<longrightarrow> is_ResourceError e')
   \<and> (fst (delete en endpoint rid hs w) = Inl e' \<longrightarrow> is_ResourceError e')
   \<and> (fst (undelete en endpoint rid hs w) = Inl e' \<longrightarrow> is_ResourceError e')"
    by (auto simp: get_all_def get_by_id_def create_def update_def delete_def undelete_def
             split: prod.splits sum.splits)
  from wrap only show ?thesis by simp
qed

text \<open>
  On the concrete remote end the message \<open>missing\<close> is answered with status 404: the
  client raises \<open>GmailAPIError\<close>, and \<open>get_by_id\<close> raises \<open>GmailResourceError\<close>.
\<close>

theorem handlers_wrap_client_errors_witness:
  "fst (client_get demo_env (''messages'' @ ''/'' @ ''missing'') None None
          (demo_world (Some (demo_cred 5000)) Absent)) =
     Inl (GmailAPIError
            ''HTTP error for https://gmail.googleapis.com/gmail/v1/users/me/messages/missing - 404 - Not Found''
            404 ''Not Found'')
   \<and> fst (get_by_id demo_env ''messages'' ''missing'' None None
            (demo_world (Some (demo_cred 5000)) Absent)) =
     Inl (GmailResourceError
            ''Failed to get messages/missing: HTTP error for https://gmail.googleapis.com/gmail/v1/users/me/messages/missing - 404 - Not Found'')
   \<and> is_ResourceError
        (GmailResourceError
            ''Failed to get messages/missing: HTTP error for https://gmail.googleapis.com/gmail/v1/users/me/messages/missing - 404 - Not Found'')"
proof -
  obtain r w' where c: "client_get demo_env (''messages'' @ ''/'' @ ''missing'') None None
          (demo_world (Some (demo_cred 5000)) Absent) = (r, w')"
    by (cases "client_get demo_env (''messages'' @ ''/'' @ ''missing'') None None
          (demo_world (Some (demo_cred 5000)) Absent)")
  have "fst (client_get demo_env (''messages'' @ ''/'' @ ''missing'') None None
          (demo_world (Some (demo_cred 5000)) Absent)) =
     Inl (GmailAPIError
            ''HTTP error for https://gmail.googleapis.com/gmail/v1/users/me/messages/missing - 404 - Not Found''
            404 ''Not Found'')"
    by (simp add: client_defs auth_defs demo_defs)
  with c have r: "r = Inl (GmailAPIError
            ''HTTP error for https://gmail.googleapis.com/gmail/v1/users/me/messages/missing - 404 - Not Found''
            404 ''Not Found'')"
    by simp
  from handlers_wrap_client_errors
         [where en = demo_env and endpoint = "''messages''" and rid = "''missing''"
            and params = None and hs = None
            and w = "demo_world (Some (demo_cred 5000)) Absent"
            and e = "GmailAPIError
            ''HTTP error for https://gmail.googleapis.com/gmail/v1/users/me/messages/missing - 404 - Not Found''
            404 ''Not Found''" and w' = w'
            and e' = "GmailResourceError
            ''Failed to get messages/missing: HTTP error for https://gmail.googleapis.com/gmail/v1/users/me/messages/missing - 404 - Not Found''"]
       c r
  show ?thesis by simp
qed

text \<open>
  C2.  When the GET of the list succeeds with a JSON object that does not hold the list
  key, \<open>get_all\<close> returns the empty list and raises nothing: for any endpoint and key on
  the base handler, and so for messages, drafts and threads through the \<open>get_all\<close> of
  their handlers (with \<open>details\<close> false, the path that issues this GET).  With \<open>details\<close>
  true these handlers issue no GET at all.
\<close>

theorem get_all_missing_list_key_is_empty:
  assumes "client_get en endpoint params hs w = (Inr (JObj kvs), w')"
      and "map_of kvs list_key = None"
  shows "get_all en endpoint list_key params hs w = (Inr (JArr []), w')
         \<and> (endpoint = MESSAGES_ENDPOINT (cfg en) \<and> list_key = ''messages'' \<longrightarrow>
              messages_get_all en params hs False sched w = (Inr (JArr []), w'))
         \<and> (endpoint = DRAFTS_ENDPOINT (cfg en) \<and> list_key = ''drafts'' \<longrightarrow>
              drafts_get_all en params hs False sched w = (Inr (JArr []), w'))
         \<and> (endpoint = THREADS_ENDPOINT (cfg en) \<and> list_key = ''threads'' \<longrightarrow>
              threads_get_all en params hs False sched w = (Inr (JArr []), w'))
         \<and> new_events w (snd (messages_get_all en params hs True sched w)) = []
         \<and> new_events w (snd (drafts_get_all en params hs True sched w)) = []
         \<and> new_events w (snd (threads_get_all en params hs True sched w)) = []"
proof -
  from assms have g: "get_all en endpoint list_key params hs w = (Inr (JArr []), w')"
    by (simp add: get_all_def)
  have d: "new_events w (snd (messages_get_all en params hs True sched w)) = []"
          "new_events w (snd (drafts_get_all en params hs True sched w)) = []"
          "new_events w (snd (threads_get_all en params hs True sched w)) = []"
    by (simp_all add: messages_get_all_def drafts_get_all_def threads_get_all_def
          get_all_with_details_def override_get_all_def new_events_def)
  have m: "endpoint = MESSAGES_ENDPOINT (cfg en) \<and> list_key = ''messages'' \<longrightarrow>
              messages_get_all en params hs False sched w = (Inr (JArr []), w')"
    using g by (auto simp: messages_get_all_def)
  have f: "endpoint = DRAFTS_ENDPOINT (cfg en) \<and> list_key = ''drafts'' \<longrightarrow>
              drafts_get_all en params hs False sched w = (Inr (JArr []), w')"
    using g by (auto simp: drafts_get_all_def)
  have t: "endpoint = THREADS_ENDPOINT (cfg en) \<and> list_key = ''threads'' \<longrightarrow>
              threads_get_all en params hs False sched w = (Inr (JArr []), w')"
    using g by (auto simp: threads_get_all_def)
  from g m f t d show ?thesis by blast
qed

text \<open>
  On the concrete remote end the list of drafts is answered with an object that has no
  \<open>drafts\<close> key.
\<close>

theorem get_all_missing_list_key_is_empty_witness:
  "fst (client_get demo_env ''drafts'' None None (demo_world (Some (demo_cred 5000)) Absent)) =
     Inr (JObj [(''resultSizeEstimate'', JNum 0)])
   \<and> map_of [(''resultSizeEstimate'', JNum 0)] ''drafts'' = None
   \<and> fst (get_all demo_env ''drafts'' ''drafts'' None None
            (demo_world (Some (demo_cred 5000)) Absent)) = Inr (JArr [])
   \<and> fst (drafts_get_all demo_env None None False []
            (demo_world (Some (demo_cred 5000)) Absent)) = Inr (JArr [])"
proof -
  obtain r w' where c: "client_get demo_env ''drafts'' None None
          (demo_world (Some (demo_cred 5000)) Absent) = (r, w')"
    by (cases "client_get demo_env ''drafts'' None None
          (demo_world (Some (demo_cred 5000)) Absent)")
  have f: "fst (client_get demo_env ''drafts'' None None
          (demo_world (Some (demo_cred 5000)) Absent)) =
       Inr (JObj [(''resultSizeEstimate'', JNum 0)])"
    by (simp add: client_defs auth_defs demo_defs)
  with c have r: "client_get demo_env ''drafts'' None None
          (demo_world (Some (demo_cred 5000)) Absent) =
       (Inr (JObj [(''resultSizeEstimate'', JNum 0)]), w')"
    by simp
  have m: "map_of [(''resultSizeEstimate'', JNum 0)] ''drafts'' = None"
    by simp
  have e: "DRAFTS_ENDPOINT (cfg demo_env) = ''drafts''"
    by (simp add: demo_defs)
  from get_all_missing_list_key_is_empty [OF r m, of "[]"] e f m
  show ?thesis by simp
qed

text \<open>
  C6.  What \<open>get_all\<close> with \<open>details\<close> true does on the three handlers: the call
  \<open>self.get_all(endpoint, list_key, params=params, headers=headers)\<close> inside
  \<open>get_all_with_details\<close> reaches the handler's own \<open>get_all\<close>, whose parameters it
  does not fit, and \<open>TypeError\<close> is raised before any request is issued: the world is
  unchanged, there is no list request and no detail request.
\<close>

theorem get_all_details_raises_TypeError:
  "messages_get_all en params hs True sched w =
     (Inl (TypeError (''GmailMessages.get_all() got multiple values for argument '' @
                      [CHR 0x27] @ ''params'' @ [CHR 0x27])), w)
   \<and> drafts_get_all en params hs True sched w =
       (Inl (TypeError (''GmailDrafts.get_all() got multiple values for argument '' @
                        [CHR 0x27] @ ''params'' @ [CHR 0x27])), w)
   \<and> threads_get_all en params hs True sched w =
       (Inl (TypeError (''GmailThreads.get_all() got multiple values for argument '' @
                        [CHR 0x27] @ ''params'' @ [CHR 0x27])), w)
   \<and> sent (new_events w (snd (messages_get_all en params hs True sched w))) = []"
  by (simp add: messages_get_all_def drafts_get_all_def threads_get_all_def
        get_all_with_details_def override_get_all_def new_events_def)

section \<open>Building a message\<close>



end
